theory Spec2Isabelle
  imports Complex_Main "HOL-Library.Multiset"
begin

section \<open>Tag compliance auditor (tag\_audit.py)\<close>

text \<open>
  A shallow embedding of \<^verbatim>\<open>src/tag_audit.py\<close>: the class \<^verbatim>\<open>TagAuditor\<close>
  (\<^verbatim>\<open>authenticate\<close>, \<^verbatim>\<open>get_resources\<close>, \<^verbatim>\<open>audit_resource\<close>, \<^verbatim>\<open>run_audit\<close>,
  \<^verbatim>\<open>generate_summary\<close>) and the renderer \<^verbatim>\<open>output_csv\<close>. Exceptions are values of a sum
  type, the error stream and the output stream are lists of the chunks written, and the
  Azure SDK is a record of the outcomes of its calls.
\<close>

subsection \<open>Python built-ins used by the program\<close>

text \<open>Exceptions. \<open>AzureError\<close> is the SDK's base class; \<open>IndexError\<close> is raised by list
  indexing; \<open>OtherException\<close> stands for every other subclass of \<^verbatim>\<open>Exception\<close>. The string
  is what \<^verbatim>\<open>str(e)\<close> gives.\<close>

datatype exn = AzureError string | OtherException string | IndexError

fun exn_str :: "exn \<Rightarrow> string" where
  "exn_str (AzureError m) = m"
| "exn_str (OtherException m) = m"
| "exn_str IndexError = ''list index out of range''"

text \<open>\<^verbatim>\<open>s.split(sep)\<close> for a one-character separator: every occurrence splits, empty
  pieces are kept, and the result is never empty.\<close>

fun split :: "char \<Rightarrow> string \<Rightarrow> string list" where
  "split sep [] = [[]]"
| "split sep (c # cs) =
     (if c = sep then [] # split sep cs
      else (case split sep cs of [] \<Rightarrow> [[c]] | w # ws \<Rightarrow> (c # w) # ws))"

text \<open>\<^verbatim>\<open>xs[i]\<close> for a non-negative literal index.\<close>

definition index :: "'a list \<Rightarrow> nat \<Rightarrow> exn + 'a" where
  "index xs i = (if i < length xs then Inr (xs ! i) else Inl IndexError)"

text \<open>\<^verbatim>\<open>sep.join(xs)\<close>.\<close>

fun join :: "string \<Rightarrow> string list \<Rightarrow> string" where
  "join sep [] = []"
| "join sep [x] = x"
| "join sep (x # y # ys) = x @ sep @ join sep (y # ys)"

text \<open>\<^verbatim>\<open>str(n)\<close> for an integer and for a boolean.\<close>

function str_digits :: "int \<Rightarrow> string" where
  "str_digits n = (if n < 10 then [''0123456789'' ! nat n]
                   else str_digits (n div 10) @ [''0123456789'' ! nat (n mod 10)])"
  by pat_completeness auto
termination
  by (relation "measure nat") auto

declare str_digits.simps [simp del]

definition str_int :: "int \<Rightarrow> string" where
  "str_int i = (if i < 0 then ''-'' @ str_digits (- i) else str_digits i)"

definition str_bool :: "bool \<Rightarrow> string" where
  "str_bool b = (if b then ''True'' else ''False'')"

subsection \<open>Floating point\<close>

text \<open>
  Python's \<^verbatim>\<open>float\<close> is an IEEE 754 binary64. A finite double is a rational number, so
  a float is modelled by its exact value in \<^typ>\<open>rat\<close>, and every operation is the exact
  operation followed by rounding to the nearest double, ties to even (\<open>to_double\<close>):
  53 significant bits in the normal range, a spacing of \<open>2 powi -1074\<close> below
  \<open>2 powi -1022\<close>. Overflow to infinity is not modelled: the floats of this program are
  quotients \<open>a / b\<close> with \<open>0 \<le> a \<le> b\<close>, their products with 100 and the roundings of those.
\<close>

definition round_half_even :: "rat \<Rightarrow> int" where
  "round_half_even q =
     (let f = \<lfloor>q\<rfloor>; d = q - of_int f
      in if d < 1 / 2 then f else if 1 / 2 < d then f + 1
         else if even f then f else f + 1)"

text \<open>\<^verbatim>\<open>n.bit_length()\<close>.\<close>

function bit_length :: "int \<Rightarrow> int" where
  "bit_length n = (if n = 0 then 0 else 1 + bit_length (\<bar>n\<bar> div 2))"
  by pat_completeness auto
termination
  by (relation "measure (\<lambda>n. nat \<bar>n\<bar>)") auto

declare bit_length.simps [simp del]

text \<open>The binary exponent of a positive rational: \<open>2 powi binade q \<le> q < 2 powi (binade q + 1)\<close>.\<close>

definition binade :: "rat \<Rightarrow> int" where
  "binade q =
     (let (a, b) = quotient_of q;
          k = bit_length a - bit_length b
      in if q < 2 powi k then k - 1 else k)"

definition to_double :: "rat \<Rightarrow> rat" where
  "to_double q =
     (if q = 0 then 0
      else let e = max (binade \<bar>q\<bar>) (- 1022);
               u = 2 powi (e - 52)
           in sgn q * of_int (round_half_even (\<bar>q\<bar> / u)) * u)"

text \<open>\<^verbatim>\<open>a / b\<close> on two integers (true division, correctly rounded) and \<^verbatim>\<open>x * n\<close> on a float
  and an integer that is itself a double. Both divisions of the program have a non-zero
  divisor: the length of the constant \<^verbatim>\<open>REQUIRED_TAGS\<close>, and \<^verbatim>\<open>total_resources\<close> under the
  guard \<^verbatim>\<open>total_resources > 0\<close>.\<close>

definition true_div :: "int \<Rightarrow> int \<Rightarrow> rat" where
  "true_div a b = to_double (of_int a / of_int b)"

definition float_mul :: "rat \<Rightarrow> int \<Rightarrow> rat" where
  "float_mul x n = to_double (x * of_int n)"

text \<open>\<^verbatim>\<open>int(x)\<close> on a float truncates towards zero.\<close>

definition py_int :: "rat \<Rightarrow> int" where
  "py_int x = (if 0 \<le> x then \<lfloor>x\<rfloor> else \<lceil>x\<rceil>)"

text \<open>\<^verbatim>\<open>round(x, 2)\<close> on a float: the exact value of \<open>x\<close> is rounded to two decimals, ties
  to even, and the decimal result is converted to the nearest double.\<close>

definition py_round2 :: "rat \<Rightarrow> rat" where
  "py_round2 x = to_double (of_int (round_half_even (x * 100)) / 100)"

text \<open>A number that is either a Python \<^verbatim>\<open>int\<close> or a Python \<^verbatim>\<open>float\<close>.\<close>

datatype pynum = PyInt int | PyFloat rat

subsection \<open>Data model\<close>

text \<open>An Azure resource object, with the attributes the auditor reads: \<^verbatim>\<open>name\<close>,
  \<^verbatim>\<open>type\<close>, \<^verbatim>\<open>id\<close>, \<^verbatim>\<open>location\<close> and \<^verbatim>\<open>tags\<close> (a dict or \<^verbatim>\<open>None\<close>). A dict is an
  association list; \<^verbatim>\<open>k in d\<close> is \<open>k \<in> fst ` set d\<close>.\<close>

record Resource =
  r_name :: string
  r_type :: string
  r_id :: string
  r_location :: string
  r_tags :: "(string \<times> string) list option"

text \<open>The dict returned by \<^verbatim>\<open>audit_resource\<close>.\<close>

record AuditResult =
  resource_name :: string
  resource_type :: string
  resource_group :: string
  location :: string
  tags :: "(string \<times> string) list"
  missing_tags :: "string list"
  compliant :: bool
  compliance_percentage :: int

text \<open>The dict returned by \<^verbatim>\<open>generate_summary\<close>.\<close>

record Summary =
  audit_timestamp :: string
  total_resources :: int
  compliant_resources :: int
  non_compliant_resources :: int
  compliance_rate :: pynum
  required_tags :: "string list"

subsection \<open>TagAuditor.audit\_resource\<close>

definition REQUIRED_TAGS :: "string list" where
  "REQUIRED_TAGS = [''environment'', ''owner'', ''project'']"

text \<open>\<^verbatim>\<open>resource.tags if resource.tags else {}\<close>: \<^verbatim>\<open>None\<close> and the empty dict are falsy.\<close>

definition resource_tags_of :: "Resource \<Rightarrow> (string \<times> string) list" where
  "resource_tags_of r =
     (case r_tags r of None \<Rightarrow> [] | Some d \<Rightarrow> (if d \<noteq> [] then d else []))"

text \<open>\<^verbatim>\<open>resource.id.split('/')[4] if '/' in resource.id else 'unknown'\<close>.\<close>

definition resource_group_of :: "string \<Rightarrow> exn + string" where
  "resource_group_of i =
     (if CHR ''/'' \<in> set i then index (split CHR ''/'' i) 4 else Inr ''unknown'')"

text \<open>The dict display evaluates its values in order, so the only exception, from the
  index in \<^verbatim>\<open>resource_group\<close>, leaves no result.\<close>

definition audit_resource :: "Resource \<Rightarrow> exn + AuditResult" where
  "audit_resource r =
     (let resource_tags = resource_tags_of r;
          missing = filter (\<lambda>tag. tag \<notin> fst ` set resource_tags) REQUIRED_TAGS
      in case resource_group_of (r_id r) of
           Inl e \<Rightarrow> Inl e
         | Inr rg \<Rightarrow> Inr
             \<lparr> resource_name = r_name r,
               resource_type = r_type r,
               resource_group = rg,
               location = r_location r,
               tags = resource_tags,
               missing_tags = missing,
               compliant = (length missing = 0),
               compliance_percentage =
                 py_int (float_mul
                   (true_div (int (length REQUIRED_TAGS) - int (length missing))
                             (int (length REQUIRED_TAGS))) 100) \<rparr>)"

subsection \<open>The Azure SDK and the error stream\<close>

text \<open>
  The SDK is the external collaborator. A run sees one outcome of each of its calls:
  \<open>sdk_login\<close> is the outcome of the three calls in \<^verbatim>\<open>authenticate\<close> (the credential, the
  client and the test listing of resource groups), \<open>None\<close> when none of them raises;
  \<open>list_by_resource_group\<close> and \<open>list_all\<close> are the outcomes of the two listing calls,
  consumed by \<^verbatim>\<open>list(...)\<close>. A \<^verbatim>\<open>print(..., file=sys.stderr)\<close> appends one line to the
  error stream, which every function returns beside its value.
\<close>

record Azure =
  sdk_login :: "exn option"
  list_by_resource_group :: "string \<Rightarrow> exn + Resource list"
  list_all :: "exn + Resource list"

text \<open>\<^verbatim>\<open>authenticate\<close>: the first handler takes \<^verbatim>\<open>AzureError\<close>, the second every other
  \<^verbatim>\<open>Exception\<close>.\<close>

definition authenticate :: "Azure \<Rightarrow> bool \<times> string list" where
  "authenticate az =
     (case sdk_login az of
        None \<Rightarrow> (True, [''Authentication successful.''])
      | Some (AzureError m) \<Rightarrow> (False, [''Authentication failed: '' @ m])
      | Some e \<Rightarrow> (False, [''Unexpected error during authentication: '' @ exn_str e]))"

text \<open>\<^verbatim>\<open>get_resources\<close>, on the client that \<^verbatim>\<open>authenticate\<close> has set. The scope
  \<^verbatim>\<open>self.resource_group\<close> is \<^verbatim>\<open>None\<close> or a string, and \<^verbatim>\<open>None\<close> and the empty string are
  falsy. The only handler takes \<^verbatim>\<open>AzureError\<close>; any other exception leaves the function.\<close>

definition get_resources :: "Azure \<Rightarrow> string option \<Rightarrow> (exn + Resource list) \<times> string list" where
  "get_resources az rg =
     (let (listed, log) =
            (if rg \<noteq> None \<and> rg \<noteq> Some []
             then (list_by_resource_group az (the rg),
                   [''Scanning resources in resource group: '' @ the rg])
             else (list_all az, [''Scanning all resources in subscription'']))
      in case listed of
           Inr resources \<Rightarrow>
             (Inr resources,
              log @ [''Found '' @ str_int (int (length resources)) @ '' resources to audit.''])
         | Inl (AzureError m) \<Rightarrow> (Inr [], log @ [''Error retrieving resources: '' @ m])
         | Inl e \<Rightarrow> (Inl e, log))"

text \<open>The loop of \<^verbatim>\<open>run_audit\<close>: each result is appended; an exception of
  \<^verbatim>\<open>audit_resource\<close> ends it.\<close>

fun audit_loop :: "AuditResult list \<Rightarrow> Resource list \<Rightarrow> exn + AuditResult list" where
  "audit_loop audit_results [] = Inr audit_results"
| "audit_loop audit_results (resource # resources) =
     (case audit_resource resource of
        Inl e \<Rightarrow> Inl e
      | Inr result \<Rightarrow> audit_loop (audit_results @ [result]) resources)"

definition run_audit :: "Azure \<Rightarrow> string option \<Rightarrow> (exn + AuditResult list) \<times> string list" where
  "run_audit az rg =
     (let (ok, log1) = authenticate az
      in if \<not> ok then (Inr [], log1 @ [''Cannot proceed without authentication.''])
         else let (got, log2) = get_resources az rg
              in case got of
                   Inl e \<Rightarrow> (Inl e, log1 @ log2)
                 | Inr resources \<Rightarrow>
                     if resources = []
                     then (Inr [], log1 @ log2 @ [''No resources found to audit.''])
                     else (audit_loop [] resources, log1 @ log2))"

subsection \<open>TagAuditor.generate\_summary\<close>

text \<open>\<open>utcnow\<close> is the string \<^verbatim>\<open>datetime.utcnow().isoformat()\<close> read from the clock.\<close>

definition generate_summary :: "string \<Rightarrow> AuditResult list \<Rightarrow> Summary" where
  "generate_summary utcnow audit_results =
     (let total = int (length audit_results);
          compl = sum_list (map (\<lambda>r. 1) (filter compliant audit_results));
          non_compl = total - compl
      in \<lparr> audit_timestamp = utcnow @ ''Z'',
           total_resources = total,
           compliant_resources = compl,
           non_compliant_resources = non_compl,
           compliance_rate =
             (if total > 0 then PyFloat (py_round2 (float_mul (true_div compl total) 100))
              else PyInt 0),
           required_tags = REQUIRED_TAGS \<rparr>)"

subsection \<open>output\_csv\<close>

text \<open>The output stream is the list of the chunks written, one for each \<^verbatim>\<open>print\<close> (its
  text and a line feed) and one for each row of the csv writer (its fields, quoted where
  needed, joined by commas, and the writer's line terminator, carriage return and line
  feed).\<close>

definition LF :: char where
  "LF = CHR 0x0A"

definition CR :: char where
  "CR = CHR 0x0D"

definition DQUOTE :: char where
  "DQUOTE = CHR 0x22"

definition print :: "string \<Rightarrow> string" where
  "print s = s @ [LF]"

text \<open>The writer's default dialect (\<^verbatim>\<open>QUOTE_MINIMAL\<close>): a field holding the delimiter, the
  quote character, a carriage return or a line feed is put in quotes, its quotes doubled.\<close>

definition csv_field :: "string \<Rightarrow> string" where
  "csv_field f =
     (if list_ex (\<lambda>c. c = CHR '','' \<or> c = DQUOTE \<or> c = CR \<or> c = LF) f
      then [DQUOTE] @ concat (map (\<lambda>c. if c = DQUOTE then [DQUOTE, DQUOTE] else [c]) f) @ [DQUOTE]
      else f)"

definition writerow :: "string list \<Rightarrow> string" where
  "writerow row = join '','' (map csv_field row) @ [CR, LF]"

definition fieldnames :: "string list" where
  "fieldnames = [''resource_name'', ''resource_type'', ''resource_group'', ''location'',
                 ''compliant'', ''compliance_percentage'', ''missing_tags'']"

text \<open>The values of \<^verbatim>\<open>csv_row\<close> in the order of \<open>fieldnames\<close>, each as the writer turns it
  into text (\<^verbatim>\<open>str\<close>).\<close>

definition csv_row :: "AuditResult \<Rightarrow> string list" where
  "csv_row result =
     [resource_name result, resource_type result, resource_group result, location result,
      str_bool (compliant result), str_int (compliance_percentage result),
      (if missing_tags result \<noteq> [] then join '', '' (missing_tags result) else ''none'')]"

fun write_rows :: "string list \<Rightarrow> AuditResult list \<Rightarrow> string list" where
  "write_rows out [] = out"
| "write_rows out (result # results) = write_rows (out @ [writerow (csv_row result)]) results"

text \<open>An f-string prints an \<^verbatim>\<open>int\<close> in decimal and a \<^verbatim>\<open>float\<close> by its \<^verbatim>\<open>repr\<close>, which is
  the parameter \<open>float_repr\<close>.\<close>

fun str_num :: "(rat \<Rightarrow> string) \<Rightarrow> pynum \<Rightarrow> string" where
  "str_num float_repr (PyInt i) = str_int i"
| "str_num float_repr (PyFloat x) = float_repr x"

definition output_csv :: "(rat \<Rightarrow> string) \<Rightarrow> AuditResult list \<Rightarrow> Summary \<Rightarrow> string list" where
  "output_csv float_repr audit_results summary =
     (let out =
            [print (''# Audit Timestamp: '' @ audit_timestamp summary),
             print (''# Total Resources: '' @ str_int (total_resources summary)),
             print (''# Compliant: '' @ str_int (compliant_resources summary)),
             print (''# Non-Compliant: '' @ str_int (non_compliant_resources summary)),
             print (''# Compliance Rate: '' @ str_num float_repr (compliance_rate summary) @ ''%''),
             print []]
      in if audit_results \<noteq> []
         then write_rows (out @ [writerow fieldnames]) audit_results
         else out)"

subsection \<open>Example inputs\<close>

text \<open>A virtual machine with the tag \<^verbatim>\<open>environment\<close> only, one without \<^verbatim>\<open>project\<close>, one
  with the three tags, and a record whose id has two segments.\<close>

definition vm1 :: Resource where
  "vm1 = \<lparr> r_name = ''vm1'', r_type = ''Microsoft.Compute/virtualMachines'',
           r_id = ''/subscriptions/s1/resourceGroups/rg1/providers/Microsoft.Compute/virtualMachines/vm1'',
           r_location = ''eastus'', r_tags = Some [(''environment'', ''prod'')] \<rparr>"


definition vm3 :: Resource where
  "vm3 = \<lparr> r_name = ''vm3'', r_type = ''Microsoft.Compute/virtualMachines'',
           r_id = ''/subscriptions/s1/resourceGroups/rg2/providers/Microsoft.Compute/virtualMachines/vm3'',
           r_location = ''westus'',
           r_tags = Some [(''environment'', ''lab''), (''owner'', ''ops''), (''project'', ''p1'')] \<rparr>"

definition short_id :: Resource where
  "short_id = \<lparr> r_name = ''x'', r_type = ''t'', r_id = ''a/b'', r_location = ''eastus'',
                r_tags = None \<rparr>"

text \<open>The results of \<^verbatim>\<open>audit_resource\<close> on the three virtual machines.\<close>

definition vm1_audit :: AuditResult where
  "vm1_audit = \<lparr> resource_name = ''vm1'', resource_type = ''Microsoft.Compute/virtualMachines'',
                 resource_group = ''rg1'', location = ''eastus'',
                 tags = [(''environment'', ''prod'')],
                 missing_tags = [''owner'', ''project''], compliant = False,
                 compliance_percentage = 33 \<rparr>"

definition vm2_audit :: AuditResult where
  "vm2_audit = \<lparr> resource_name = ''vm2'', resource_type = ''Microsoft.Compute/virtualMachines'',
                 resource_group = ''rg1'', location = ''eastus'',
                 tags = [(''environment'', ''prod''), (''owner'', ''ops'')],
                 missing_tags = [''project''], compliant = False,
                 compliance_percentage = 66 \<rparr>"

definition vm3_audit :: AuditResult where
  "vm3_audit = \<lparr> resource_name = ''vm3'', resource_type = ''Microsoft.Compute/virtualMachines'',
                 resource_group = ''rg2'', location = ''westus'',
                 tags = [(''environment'', ''lab''), (''owner'', ''ops''), (''project'', ''p1'')],
                 missing_tags = [], compliant = True,
                 compliance_percentage = 100 \<rparr>"

text \<open>SDK outcomes: a listing that holds the record with the short id, a login that
  raises, a listing that raises \<^verbatim>\<open>AzureError\<close>, and a listing that raises another
  exception.\<close>

definition az_short :: Azure where
  "az_short = \<lparr> sdk_login = None, list_by_resource_group = (\<lambda>rg. Inr []),
                list_all = Inr [vm3, short_id] \<rparr>"

definition az_no_login :: Azure where
  "az_no_login = \<lparr> sdk_login = Some (OtherException ''no credentials''),
                   list_by_resource_group = (\<lambda>rg. Inr [vm1]), list_all = Inr [vm1, vm3] \<rparr>"

definition az_no_listing :: Azure where
  "az_no_listing = \<lparr> sdk_login = None,
                     list_by_resource_group = (\<lambda>rg. Inl (AzureError ''not found'')),
                     list_all = Inl (AzureError ''timeout'') \<rparr>"

definition az_broken_listing :: Azure where
  "az_broken_listing = \<lparr> sdk_login = None,
                     list_by_resource_group = (\<lambda>rg. Inl (OtherException ''bad page'')),
                     list_all = Inl (OtherException ''bad page'') \<rparr>"

text \<open>The \<^verbatim>\<open>repr\<close> of the only float that the example report prints, \<^verbatim>\<open>50.0\<close>.\<close>

definition repr_50 :: "rat \<Rightarrow> string" where
  "repr_50 x = ''50.0''"

section \<open>Properties\<close>

subsection \<open>The rounding to a double\<close>

text \<open>\<open>to_double q\<close> is a multiple of the spacing \<open>2 powi (e - 52)\<close> of the doubles around
  \<open>q\<close>, with at most 53 bits, and differs from \<open>q\<close> by at most half of that spacing; together
  with the rule for ties in \<open>round_half_even\<close> this is rounding to nearest, ties to even.\<close>

lemma bit_length_bounds:
  "0 < n \<Longrightarrow> 0 < bit_length n \<and> 2 ^ nat (bit_length n - 1) \<le> n \<and> n < 2 ^ nat (bit_length n)"
proof (induction n rule: bit_length.induct)
  case (1 n)
  show ?case
  proof (cases "n div 2 = 0")
    case True
    with "1.prems" have "n = 1" by presburger
    then show ?thesis
      by (simp add: bit_length.simps [of 1] bit_length.simps [of 0])
  next
    case False
    with "1.prems" have pos: "0 < \<bar>n\<bar> div 2" and abs: "\<bar>n\<bar> = n"
      by simp_all
    from "1.IH" [OF _ pos] "1.prems" abs
    have ih: "0 < bit_length (n div 2)"
      "2 ^ nat (bit_length (n div 2) - 1) \<le> n div 2"
      "n div 2 < 2 ^ nat (bit_length (n div 2))"
      by simp_all
    have bl: "bit_length n = 1 + bit_length (n div 2)"
      using "1.prems" abs by (subst bit_length.simps) simp
    have e: "nat (bit_length (n div 2)) = Suc (nat (bit_length (n div 2) - 1))"
      using ih(1) by simp
    have "2 * 2 ^ nat (bit_length (n div 2) - 1) \<le> n"
      using ih(2) by presburger
    moreover have "n < 2 * 2 ^ nat (bit_length (n div 2))"
      using ih(3) by presburger
    ultimately show ?thesis
      using ih(1) e by (simp add: bl nat_add_distrib)
  qed
qed

lemma round_half_even_error: "\<bar>of_int (round_half_even q) - q\<bar> \<le> 1 / 2"
proof -
  have "of_int \<lfloor>q\<rfloor> \<le> q" "q < of_int \<lfloor>q\<rfloor> + 1"
    by linarith+
  then show ?thesis
    by (auto simp: round_half_even_def Let_def abs_le_iff)
qed

lemma bit_length_powi:
  assumes "0 < n"
  shows "(2::rat) powi (bit_length n - 1) \<le> of_int n" and "of_int n < (2::rat) powi bit_length n"
proof -
  from bit_length_bounds [OF assms]
  have pos: "0 < bit_length n" and lo: "2 ^ nat (bit_length n - 1) \<le> n"
    and hi: "n < 2 ^ nat (bit_length n)"
    by simp_all
  have "(of_int (2 ^ nat (bit_length n - 1)) :: rat) \<le> of_int n"
    using lo by (simp only: of_int_le_iff)
  then show "(2::rat) powi (bit_length n - 1) \<le> of_int n"
    using pos by (simp add: power_int_def)
  have "(of_int n :: rat) < of_int (2 ^ nat (bit_length n))"
    using hi by (simp only: of_int_less_iff)
  then show "of_int n < (2::rat) powi bit_length n"
    using pos by (simp add: power_int_def)
qed

lemma binade_bounds:
  assumes "0 < q"
  shows "2 powi binade q \<le> q" and "q < 2 powi (binade q + 1)"
proof -
  obtain a b where ab: "quotient_of q = (a, b)"
    by (cases "quotient_of q")
  have b: "0 < b"
    using ab by (rule quotient_of_denom_pos)
  have q: "q = of_int a / of_int b"
    using ab by (rule quotient_of_div)
  have a: "0 < a"
    using assms b by (simp add: q zero_less_divide_iff)
  let ?k = "bit_length a - bit_length b"
  have "(2::rat) powi (bit_length a - 1) / 2 powi bit_length b < of_int a / of_int b"
    using bit_length_powi [OF a] bit_length_powi [OF b] b
    by (intro frac_less2) simp_all
  moreover have "(2::rat) powi (bit_length a - 1) / 2 powi bit_length b
      = 2 powi (bit_length a - 1 - bit_length b)"
    by (rule power_int_diff [symmetric]) simp
  moreover have "bit_length a - 1 - bit_length b = ?k - 1"
    by simp
  ultimately have lower: "2 powi (?k - 1) < q"
    by (simp only: q)
  have "of_int a / of_int b < (2::rat) powi bit_length a / 2 powi (bit_length b - 1)"
    using bit_length_powi [OF a] bit_length_powi [OF b] a
    by (intro frac_less) simp_all
  moreover have "(2::rat) powi bit_length a / 2 powi (bit_length b - 1)
      = 2 powi (bit_length a - (bit_length b - 1))"
    by (rule power_int_diff [symmetric]) simp
  moreover have "bit_length a - (bit_length b - 1) = ?k + 1"
    by simp
  ultimately have upper: "q < 2 powi (?k + 1)"
    by (simp only: q)
  have bin: "binade q = (if q < 2 powi ?k then ?k - 1 else ?k)"
    by (simp add: binade_def ab)
  show "2 powi binade q \<le> q"
    using lower by (simp add: bin)
  show "q < 2 powi (binade q + 1)"
    using upper by (simp add: bin)
qed

lemma to_double_error:
  "\<bar>to_double q - q\<bar> \<le> 2 powi (max (binade \<bar>q\<bar>) (- 1022) - 53)"
proof (cases "q = 0")
  case True
  then show ?thesis by (simp add: to_double_def)
next
  case False
  define e where "e = max (binade \<bar>q\<bar>) (- 1022)"
  define u :: rat where "u = 2 powi (e - 52)"
  define m where "m = round_half_even (\<bar>q\<bar> / u)"
  have u: "0 < u" by (simp add: u_def)
  have td: "to_double q = sgn q * of_int m * u"
    using False by (simp add: to_double_def Let_def e_def u_def m_def)
  have "\<bar>to_double q - q\<bar> = \<bar>of_int m * u - \<bar>q\<bar>\<bar>"
  proof (cases "0 < q")
    case True
    then show ?thesis by (simp add: td)
  next
    case neg: False
    with False have "q < 0" by simp
    then have "to_double q - q = - (of_int m * u - \<bar>q\<bar>)"
      by (simp add: td)
    then show ?thesis by (simp only: abs_minus_cancel)
  qed
  also have "of_int m * u - \<bar>q\<bar> = (of_int m - \<bar>q\<bar> / u) * u"
    using u by (simp add: field_simps)
  also have "\<bar>(of_int m - \<bar>q\<bar> / u) * u\<bar> = \<bar>of_int m - \<bar>q\<bar> / u\<bar> * u"
    using u by (simp add: abs_mult)
  also have "\<dots> \<le> 1 / 2 * u"
    using round_half_even_error [of "\<bar>q\<bar> / u"] u
    by (intro mult_right_mono) (simp_all add: m_def)
  also have "\<dots> = 2 powi (e - 53)"
  proof -
    have "(2::rat) powi (e - 52) = 2 powi (e - 53) * 2 powi 1"
      by (subst power_int_add [symmetric]) simp_all
    then show ?thesis by (simp add: u_def)
  qed
  finally show ?thesis by (simp add: e_def)
qed

lemma round_half_even_le:
  assumes "x \<le> of_int n"
  shows "round_half_even x \<le> n"
proof -
  have f: "\<lfloor>x\<rfloor> \<le> n"
    using assms by (simp add: floor_le_iff)
  show ?thesis
  proof (cases "x = of_int \<lfloor>x\<rfloor>")
    case True
    then have "x - of_int \<lfloor>x\<rfloor> = 0" by simp
    then show ?thesis
      using f by (simp add: round_half_even_def Let_def)
  next
    case False
    then have "of_int \<lfloor>x\<rfloor> < x"
      using of_int_floor_le [of x] by linarith
    with assms have "(of_int \<lfloor>x\<rfloor> :: rat) < of_int n" by linarith
    then have "\<lfloor>x\<rfloor> + 1 \<le> n" by simp
    with f show ?thesis
      by (simp add: round_half_even_def Let_def)
  qed
qed

lemma round_half_even_nonneg: "0 \<le> x \<Longrightarrow> 0 \<le> round_half_even x"
  by (simp add: round_half_even_def Let_def)

lemma to_double_grid:
  assumes "q \<noteq> 0"
  shows "\<exists>m. to_double q = sgn q * of_int m * 2 powi (max (binade \<bar>q\<bar>) (- 1022) - 52)
           \<and> 0 \<le> m \<and> m \<le> 2 ^ 53"
proof -
  define e where "e = max (binade \<bar>q\<bar>) (- 1022)"
  define u :: rat where "u = 2 powi (e - 52)"
  define m where "m = round_half_even (\<bar>q\<bar> / u)"
  have u: "0 < u" by (simp add: u_def)
  have td: "to_double q = sgn q * of_int m * u"
    using assms by (simp add: to_double_def Let_def e_def u_def m_def)
  have "\<bar>q\<bar> < 2 powi (binade \<bar>q\<bar> + 1)"
    using assms by (intro binade_bounds) simp
  also have "\<dots> \<le> 2 powi (e + 1)"
    by (intro power_int_increasing) (simp_all add: e_def)
  also have "\<dots> = 2 powi 53 * u"
    unfolding u_def by (subst power_int_add [symmetric]) (simp_all add: add.commute)
  finally have "\<bar>q\<bar> / u < 2 powi 53"
    using u by (simp add: pos_divide_less_eq)
  then have "\<bar>q\<bar> / u \<le> of_int (2 ^ 53)"
    by simp
  then have "m \<le> 2 ^ 53"
    unfolding m_def by (rule round_half_even_le)
  moreover have "0 \<le> m"
    unfolding m_def using u by (intro round_half_even_nonneg) simp
  ultimately show ?thesis
    using td by (auto simp: e_def u_def)
qed

subsection \<open>The percentage of each count of missing tags\<close>

text \<open>The float computation \<^verbatim>\<open>int(((3 - m) / 3) * 100)\<close> at the four counts \<open>m\<close>.\<close>

lemma percentage_none_missing: "py_int (float_mul (true_div (3 - 0) 3) 100) = 100"
  by code_simp

lemma percentage_one_missing: "py_int (float_mul (true_div (3 - 1) 3) 100) = 66"
  by code_simp

lemma percentage_two_missing: "py_int (float_mul (true_div (3 - 2) 3) 100) = 33"
  by code_simp

lemma percentage_all_missing: "py_int (float_mul (true_div (3 - 3) 3) 100) = 0"
  by code_simp

lemma length_REQUIRED_TAGS: "length REQUIRED_TAGS = 3"
  by (simp add: REQUIRED_TAGS_def)

lemma length_filter_REQUIRED_TAGS: "length (filter P REQUIRED_TAGS) \<le> 3"
  using length_filter_le [of P REQUIRED_TAGS] by (simp add: length_REQUIRED_TAGS)

lemma audit_resource_Inr:
  assumes "audit_resource r = Inr a"
  shows "missing_tags a = filter (\<lambda>tag. tag \<notin> fst ` set (resource_tags_of r)) REQUIRED_TAGS"
    and "tags a = resource_tags_of r"
    and "compliant a = (missing_tags a = [])"
    and "compliance_percentage a =
           py_int (float_mul (true_div (3 - int (length (missing_tags a))) 3) 100)"
    and "resource_group_of (r_id r) = Inr (resource_group a)"
  using assms
  by (auto simp: audit_resource_def Let_def length_REQUIRED_TAGS split: sum.splits)

lemma percentage_by_count:
  assumes "audit_resource r = Inr a"
  shows "length (missing_tags a) \<le> 3"
    and "compliance_percentage a =
           (if length (missing_tags a) = 0 then 100
            else if length (missing_tags a) = 1 then 66
            else if length (missing_tags a) = 2 then 33 else 0)"
proof -
  show le: "length (missing_tags a) \<le> 3"
    by (simp add: audit_resource_Inr(1) [OF assms] length_filter_REQUIRED_TAGS)
  then consider "length (missing_tags a) = 0" | "length (missing_tags a) = 1"
    | "length (missing_tags a) = 2" | "length (missing_tags a) = 3"
    by linarith
  then show "compliance_percentage a =
           (if length (missing_tags a) = 0 then 100
            else if length (missing_tags a) = 1 then 66
            else if length (missing_tags a) = 2 then 33 else 0)"
  proof cases
    case 1
    then show ?thesis
      using audit_resource_Inr(4) [OF assms] percentage_none_missing by simp
  next
    case 2
    then show ?thesis
      using audit_resource_Inr(4) [OF assms] percentage_one_missing by simp
  next
    case 3
    then show ?thesis
      using audit_resource_Inr(4) [OF assms] percentage_two_missing by simp
  next
    case 4
    then show ?thesis
      using audit_resource_Inr(4) [OF assms] percentage_all_missing by simp
  qed
qed








subsection \<open>Evaluation of the examples\<close>

lemma audit_vm1: "audit_resource vm1 = Inr vm1_audit"
  by code_simp


lemma audit_vm3: "audit_resource vm3 = Inr vm3_audit"
  by code_simp

subsection \<open>When the evaluator raises\<close>

text \<open>\<^verbatim>\<open>split\<close> gives one piece more than there are separators, so the index 4 is out of
  range exactly when the id has one, two or three slashes.\<close>

lemma length_split: "length (split sep s) = Suc (length (filter (\<lambda>c. c = sep) s))"
  by (induction s) (auto split: list.splits)

lemma resource_group_of_raises_iff:
  "resource_group_of i = Inl e \<longleftrightarrow>
     e = IndexError \<and> 1 \<le> length (filter (\<lambda>c. c = CHR ''/'') i)
       \<and> length (filter (\<lambda>c. c = CHR ''/'') i) \<le> 3"
proof -
  have "CHR ''/'' \<in> set i \<longleftrightarrow> 1 \<le> length (filter (\<lambda>c. c = CHR ''/'') i)"
    by (induction i) auto
  then show ?thesis
    by (auto simp: resource_group_of_def index_def length_split)
qed

lemma resource_group_of_unknown:
  "CHR ''/'' \<notin> set i \<Longrightarrow> resource_group_of i = Inr ''unknown''"
  by (simp add: resource_group_of_def)

lemma resource_group_of_segment:
  "CHR ''/'' \<in> set i \<Longrightarrow> 5 \<le> length (split CHR ''/'' i) \<Longrightarrow>
     resource_group_of i = Inr (split CHR ''/'' i ! 4)"
  by (simp add: resource_group_of_def index_def)

lemma audit_resource_raises_iff:
  "audit_resource r = Inl e \<longleftrightarrow>
     e = IndexError \<and> 1 \<le> length (filter (\<lambda>c. c = CHR ''/'') (r_id r))
       \<and> length (filter (\<lambda>c. c = CHR ''/'') (r_id r)) \<le> 3"
  using resource_group_of_raises_iff [of "r_id r" e]
  by (auto simp: audit_resource_def Let_def split: sum.splits)

subsection \<open>Summary and report\<close>

lemma sum_list_ones: "sum_list (map (\<lambda>r. 1::int) xs) = int (length xs)"
  by (induction xs) simp_all

lemma write_rows_map: "write_rows out rs = out @ map (\<lambda>r. writerow (csv_row r)) rs"
  by (induction rs arbitrary: out) simp_all

lemma writerow_fieldnames:
  "writerow fieldnames =
     ''resource_name,resource_type,resource_group,location,compliant,compliance_percentage,missing_tags''
       @ [CR, LF]"
  by code_simp

subsection \<open>Failures of the SDK in the runner\<close>

text \<open>What \<^verbatim>\<open>run_audit\<close> turns into the empty list: any exception of the calls in
  \<^verbatim>\<open>authenticate\<close>, and an \<^verbatim>\<open>AzureError\<close> of the listing call.\<close>

lemma run_audit_failure_empty:
  "(sdk_login az = Some e \<longrightarrow>
      fst (run_audit az rg) = Inr []
      \<and> ''Cannot proceed without authentication.'' \<in> set (snd (run_audit az rg)))
   \<and> (sdk_login az = None
      \<and> (if rg \<noteq> None \<and> rg \<noteq> Some [] then list_by_resource_group az (the rg) else list_all az)
          = Inl (AzureError m) \<longrightarrow>
      fst (run_audit az rg) = Inr []
      \<and> (''Error retrieving resources: '' @ m) \<in> set (snd (run_audit az rg)))"
proof (intro conjI impI)
  assume a: "sdk_login az = Some e"
  then obtain log where "authenticate az = (False, log)"
    by (cases e) (simp_all add: authenticate_def)
  then show "fst (run_audit az rg) = Inr []"
    and "''Cannot proceed without authentication.'' \<in> set (snd (run_audit az rg))"
    by (simp_all add: run_audit_def)
next
  assume b: "sdk_login az = None
      \<and> (if rg \<noteq> None \<and> rg \<noteq> Some [] then list_by_resource_group az (the rg) else list_all az)
          = Inl (AzureError m)"
  then have auth: "authenticate az = (True, [''Authentication successful.''])"
    by (simp add: authenticate_def)
  have got: "fst (get_resources az rg) = Inr []
      \<and> (''Error retrieving resources: '' @ m) \<in> set (snd (get_resources az rg))"
    using b by (auto simp: get_resources_def Let_def split: if_splits)
  then show "fst (run_audit az rg) = Inr []"
    and "(''Error retrieving resources: '' @ m) \<in> set (snd (run_audit az rg))"
    by (auto simp: run_audit_def auth split: prod.splits)
qed

lemma run_audit_failure_empty_examples:
  "run_audit az_no_login None =
     (Inr [], [''Unexpected error during authentication: no credentials'',
               ''Cannot proceed without authentication.''])
   \<and> run_audit az_no_listing (Some ''rg1'') =
     (Inr [], [''Authentication successful.'', ''Scanning resources in resource group: rg1'',
               ''Error retrieving resources: not found'', ''No resources found to audit.''])
   \<and> ''Cannot proceed without authentication.'' \<in> set (snd (run_audit az_no_login None))
   \<and> ''Error retrieving resources: not found'' \<in> set (snd (run_audit az_no_listing (Some ''rg1'')))"
proof -
  have l: "sdk_login az_no_login = Some (OtherException ''no credentials'')"
    by (simp add: az_no_login_def)
  have r: "sdk_login az_no_listing = None
      \<and> (if Some ''rg1'' \<noteq> None \<and> Some ''rg1'' \<noteq> Some []
          then list_by_resource_group az_no_listing (the (Some ''rg1''))
          else list_all az_no_listing) = Inl (AzureError ''not found'')"
    by (simp add: az_no_listing_def)
  have e1: "run_audit az_no_login None =
     (Inr [], [''Unexpected error during authentication: no credentials'',
               ''Cannot proceed without authentication.''])"
    by code_simp
  have e2: "run_audit az_no_listing (Some ''rg1'') =
     (Inr [], [''Authentication successful.'', ''Scanning resources in resource group: rg1'',
               ''Error retrieving resources: not found'', ''No resources found to audit.''])"
    by code_simp
  show ?thesis
    using run_audit_failure_empty [of az_no_login "OtherException ''no credentials''" None]
      run_audit_failure_empty [of az_no_listing _ "Some ''rg1''" "''not found''"] l r e1 e2
    by simp
qed

text \<open>An exception of the listing call that is not an \<^verbatim>\<open>AzureError\<close> leaves
  \<^verbatim>\<open>get_resources\<close> and \<^verbatim>\<open>run_audit\<close>.\<close>

lemma run_audit_exception_escapes:
  assumes "sdk_login az = None"
    and "(if rg \<noteq> None \<and> rg \<noteq> Some [] then list_by_resource_group az (the rg) else list_all az)
          = Inl e"
    and "\<And>m. e \<noteq> AzureError m"
  shows "fst (run_audit az rg) = Inl e"
proof -
  have auth: "authenticate az = (True, [''Authentication successful.''])"
    using assms(1) by (simp add: authenticate_def)
  have "fst (get_resources az rg) = Inl e"
    using assms(2,3) by (cases e) (auto simp: get_resources_def Let_def split: if_splits)
  then show ?thesis
    by (auto simp: run_audit_def auth split: prod.splits)
qed

section \<open>Claims\<close>






text \<open>Claim C3: evaluating a record never aborts. The code does abort: on an id with a
  slash and fewer than five segments the index raises \<^verbatim>\<open>IndexError\<close>, which also ends
  \<^verbatim>\<open>run_audit\<close>.\<close>

theorem short_id_raises:
  "audit_resource short_id = Inl IndexError \<and> fst (run_audit az_short None) = Inl IndexError"
  by code_simp

text \<open>Claim C4: in every result of the evaluator, \<^verbatim>\<open>compliant\<close> holds exactly when
  \<^verbatim>\<open>compliance_percentage\<close> is 100, and the missing required tags and the present required
  tags are three together.\<close>

theorem compliant_iff_100:
  assumes "audit_resource r = Inr a"
  shows "(compliant a \<longleftrightarrow> compliance_percentage a = 100)
       \<and> length (missing_tags a)
           + length (filter (\<lambda>tag. tag \<in> fst ` set (tags a)) REQUIRED_TAGS) = 3"
proof -
  have "compliant a \<longleftrightarrow> length (missing_tags a) = 0"
    by (simp add: audit_resource_Inr(3) [OF assms])
  also have "\<dots> \<longleftrightarrow> compliance_percentage a = 100"
    using percentage_by_count(2) [OF assms] by simp
  finally have iff: "compliant a \<longleftrightarrow> compliance_percentage a = 100" .
  have "length (filter (\<lambda>tag. tag \<in> fst ` set (tags a)) REQUIRED_TAGS)
          + length (missing_tags a) = length REQUIRED_TAGS"
    unfolding audit_resource_Inr(1) [OF assms] audit_resource_Inr(2) [OF assms]
    by (rule sum_length_filter_compl)
  then have "length (missing_tags a)
           + length (filter (\<lambda>tag. tag \<in> fst ` set (tags a)) REQUIRED_TAGS) = 3"
    by (simp add: length_REQUIRED_TAGS)
  with iff show ?thesis by simp
qed

theorem compliant_iff_100_witness:
  "(compliant vm3_audit \<longleftrightarrow> compliance_percentage vm3_audit = 100)
   \<and> compliant vm3_audit
   \<and> (compliant vm1_audit \<longleftrightarrow> compliance_percentage vm1_audit = 100)
   \<and> \<not> compliant vm1_audit
   \<and> length (missing_tags vm1_audit)
       + length (filter (\<lambda>tag. tag \<in> fst ` set (tags vm1_audit)) REQUIRED_TAGS) = 3"
  using compliant_iff_100 [OF audit_vm3] compliant_iff_100 [OF audit_vm1]
  by (simp add: vm3_audit_def vm1_audit_def)



text \<open>Claim C6: for \<open>N\<close> results of which \<open>C\<close> are compliant, the summary has
  \<^verbatim>\<open>total_resources\<close> \<open>N\<close>, \<^verbatim>\<open>compliant_resources\<close> \<open>C\<close>, \<^verbatim>\<open>non_compliant_resources\<close> \<open>N - C\<close>,
  and \<^verbatim>\<open>compliance_rate\<close> the float \<^verbatim>\<open>round(C / N * 100, 2)\<close> when \<open>N > 0\<close> and the integer 0
  when \<open>N = 0\<close>.\<close>

theorem generate_summary_counts:
  "total_resources (generate_summary utcnow rs) = int (length rs)
   \<and> compliant_resources (generate_summary utcnow rs) = int (length (filter compliant rs))
   \<and> non_compliant_resources (generate_summary utcnow rs)
       = int (length rs) - int (length (filter compliant rs))
   \<and> compliance_rate (generate_summary utcnow rs)
       = (if length rs > 0
          then PyFloat (py_round2 (float_mul
                 (true_div (int (length (filter compliant rs))) (int (length rs))) 100))
          else PyInt 0)"
  by (simp add: generate_summary_def Let_def sum_list_ones)

theorem generate_summary_counts_witness:
  "total_resources (generate_summary ''2024-01-01T00:00:00'' [vm1_audit, vm3_audit, vm2_audit]) = 3
   \<and> compliant_resources (generate_summary ''2024-01-01T00:00:00'' [vm1_audit, vm3_audit, vm2_audit]) = 1
   \<and> non_compliant_resources (generate_summary ''2024-01-01T00:00:00'' [vm1_audit, vm3_audit, vm2_audit]) = 2
   \<and> compliance_rate (generate_summary ''2024-01-01T00:00:00'' [vm1_audit, vm3_audit, vm2_audit])
       = PyFloat (to_double (3333 / 100))
   \<and> total_resources (generate_summary ''2024-01-01T00:00:00'' []) = 0
   \<and> compliance_rate (generate_summary ''2024-01-01T00:00:00'' []) = PyInt 0"
proof -
  have rate: "py_round2 (float_mul (true_div 1 3) 100) = to_double (3333 / 100)"
    by code_simp
  show ?thesis
    using generate_summary_counts [of "''2024-01-01T00:00:00''" "[vm1_audit, vm3_audit, vm2_audit]"]
      generate_summary_counts [of "''2024-01-01T00:00:00''" "[]"] rate
    by (simp add: vm1_audit_def vm2_audit_def vm3_audit_def)
qed

text \<open>Claim C7: the summaries of a list of results and of any permutation of it agree on
  every field but the timestamp.\<close>

theorem generate_summary_permutation:
  assumes "mset rs = mset rs'"
  shows "total_resources (generate_summary t rs) = total_resources (generate_summary t' rs')
       \<and> compliant_resources (generate_summary t rs) = compliant_resources (generate_summary t' rs')
       \<and> non_compliant_resources (generate_summary t rs)
           = non_compliant_resources (generate_summary t' rs')
       \<and> compliance_rate (generate_summary t rs) = compliance_rate (generate_summary t' rs')
       \<and> required_tags (generate_summary t rs) = required_tags (generate_summary t' rs')"
proof -
  have len: "length rs = length rs'"
    using assms by (rule mset_eq_length)
  have "mset (filter compliant rs) = mset (filter compliant rs')"
    using assms by (simp only: mset_filter)
  then have "length (filter compliant rs) = length (filter compliant rs')"
    by (rule mset_eq_length)
  with len show ?thesis
    by (simp add: generate_summary_def Let_def sum_list_ones)
qed

theorem generate_summary_permutation_witness:
  "mset [vm1_audit, vm3_audit, vm2_audit] = mset [vm3_audit, vm2_audit, vm1_audit]
   \<and> compliance_rate (generate_summary ''2024-01-01T00:00:00'' [vm1_audit, vm3_audit, vm2_audit])
       = compliance_rate (generate_summary ''2024-06-01T12:00:00'' [vm3_audit, vm2_audit, vm1_audit])
   \<and> compliant_resources (generate_summary ''2024-01-01T00:00:00'' [vm1_audit, vm3_audit, vm2_audit])
       = compliant_resources (generate_summary ''2024-06-01T12:00:00'' [vm3_audit, vm2_audit, vm1_audit])"
proof -
  have perm: "mset [vm1_audit, vm3_audit, vm2_audit] = mset [vm3_audit, vm2_audit, vm1_audit]"
    by (simp add: add_mset_commute)
  show ?thesis
    using generate_summary_permutation [OF perm, of "''2024-01-01T00:00:00''" "''2024-06-01T12:00:00''"] perm
    by simp
qed

text \<open>Claim C8, as amended: for a non-empty list of \<open>N\<close> results the CSV renderer writes
  five comment lines that start with \<open>#\<close> (timestamp, total, compliant, non-compliant,
  rate), a blank line, one header row with the seven column names in their order, and \<open>N\<close>
  data rows in the order of the list, the last field being the missing tags joined by a
  comma and a space, or \<open>none\<close>. For the empty list it writes the five comment lines and the
  blank line only, without a header row.\<close>

theorem output_csv_layout:
  "(audit_results \<noteq> [] \<longrightarrow>
      output_csv float_repr audit_results summary =
        [''# Audit Timestamp: '' @ audit_timestamp summary @ [LF],
         ''# Total Resources: '' @ str_int (total_resources summary) @ [LF],
         ''# Compliant: '' @ str_int (compliant_resources summary) @ [LF],
         ''# Non-Compliant: '' @ str_int (non_compliant_resources summary) @ [LF],
         ''# Compliance Rate: '' @ str_num float_repr (compliance_rate summary) @ ''%'' @ [LF],
         [LF],
         ''resource_name,resource_type,resource_group,location,compliant,compliance_percentage,missing_tags''
           @ [CR, LF]]
        @ map (\<lambda>r. writerow
                 [resource_name r, resource_type r, resource_group r, location r,
                  str_bool (compliant r), str_int (compliance_percentage r),
                  if missing_tags r = [] then ''none'' else join '', '' (missing_tags r)])
              audit_results
      \<and> length (output_csv float_repr audit_results summary) = 5 + 1 + 1 + length audit_results)
   \<and> (audit_results = [] \<longrightarrow>
      output_csv float_repr audit_results summary =
        [''# Audit Timestamp: '' @ audit_timestamp summary @ [LF],
         ''# Total Resources: '' @ str_int (total_resources summary) @ [LF],
         ''# Compliant: '' @ str_int (compliant_resources summary) @ [LF],
         ''# Non-Compliant: '' @ str_int (non_compliant_resources summary) @ [LF],
         ''# Compliance Rate: '' @ str_num float_repr (compliance_rate summary) @ ''%'' @ [LF],
         [LF]])"
proof -
  have row: "csv_row r =
      [resource_name r, resource_type r, resource_group r, location r,
       str_bool (compliant r), str_int (compliance_percentage r),
       if missing_tags r = [] then ''none'' else join '', '' (missing_tags r)]" for r
    by (simp add: csv_row_def)
  show ?thesis
    by (simp add: output_csv_def Let_def print_def write_rows_map writerow_fieldnames row)
qed

theorem output_csv_layout_witness:
  "output_csv repr_50 [vm1_audit, vm3_audit]
       (generate_summary ''2024-01-01T00:00:00'' [vm1_audit, vm3_audit]) =
     [''# Audit Timestamp: 2024-01-01T00:00:00Z'' @ [LF],
      ''# Total Resources: 2'' @ [LF],
      ''# Compliant: 1'' @ [LF],
      ''# Non-Compliant: 1'' @ [LF],
      ''# Compliance Rate: 50.0%'' @ [LF],
      [LF],
      ''resource_name,resource_type,resource_group,location,compliant,compliance_percentage,missing_tags''
        @ [CR, LF],
      ''vm1,Microsoft.Compute/virtualMachines,rg1,eastus,False,33,'' @ [DQUOTE] @ ''owner, project''
        @ [DQUOTE, CR, LF],
      ''vm3,Microsoft.Compute/virtualMachines,rg2,westus,True,100,none'' @ [CR, LF]]"
proof -
  let ?rs = "[vm1_audit, vm3_audit]"
  let ?s = "generate_summary ''2024-01-01T00:00:00'' ?rs"
  have ne: "?rs \<noteq> []" by simp
  have "output_csv repr_50 ?rs ?s =
        [''# Audit Timestamp: '' @ audit_timestamp ?s @ [LF],
         ''# Total Resources: '' @ str_int (total_resources ?s) @ [LF],
         ''# Compliant: '' @ str_int (compliant_resources ?s) @ [LF],
         ''# Non-Compliant: '' @ str_int (non_compliant_resources ?s) @ [LF],
         ''# Compliance Rate: '' @ str_num repr_50 (compliance_rate ?s) @ ''%'' @ [LF],
         [LF],
         ''resource_name,resource_type,resource_group,location,compliant,compliance_percentage,missing_tags''
           @ [CR, LF]]
        @ map (\<lambda>r. writerow
                 [resource_name r, resource_type r, resource_group r, location r,
                  str_bool (compliant r), str_int (compliance_percentage r),
                  if missing_tags r = [] then ''none'' else join '', '' (missing_tags r)])
              ?rs"
    using output_csv_layout [of ?rs repr_50 ?s] ne by blast
  also have "\<dots> =
     [''# Audit Timestamp: 2024-01-01T00:00:00Z'' @ [LF],
      ''# Total Resources: 2'' @ [LF],
      ''# Compliant: 1'' @ [LF],
      ''# Non-Compliant: 1'' @ [LF],
      ''# Compliance Rate: 50.0%'' @ [LF],
      [LF],
      ''resource_name,resource_type,resource_group,location,compliant,compliance_percentage,missing_tags''
        @ [CR, LF],
      ''vm1,Microsoft.Compute/virtualMachines,rg1,eastus,False,33,'' @ [DQUOTE] @ ''owner, project''
        @ [DQUOTE, CR, LF],
      ''vm3,Microsoft.Compute/virtualMachines,rg2,westus,True,100,none'' @ [CR, LF]]"
    by code_simp
  finally show ?thesis .
qed

theorem output_csv_empty_counterexample:
  "output_csv repr_50 [] (generate_summary ''2024-01-01T00:00:00'' []) =
     [''# Audit Timestamp: 2024-01-01T00:00:00Z'' @ [LF],
      ''# Total Resources: 0'' @ [LF],
      ''# Compliant: 0'' @ [LF],
      ''# Non-Compliant: 0'' @ [LF],
      ''# Compliance Rate: 0%'' @ [LF],
      [LF]]"
  by code_simp

text \<open>Claim C9: when authentication fails or the listing call fails, \<^verbatim>\<open>run_audit\<close> returns
  the empty list and no exception leaves it. The code lets an exception through: the
  handler of \<^verbatim>\<open>get_resources\<close> takes \<^verbatim>\<open>AzureError\<close> only, so a listing call that fails with
  another exception ends \<^verbatim>\<open>run_audit\<close> with that exception, where \<^verbatim>\<open>authenticate\<close> turns the
  same exception into \<^verbatim>\<open>False\<close>.\<close>

theorem listing_exception_escapes:
  "run_audit az_broken_listing None =
     (Inl (OtherException ''bad page''),
      [''Authentication successful.'', ''Scanning all resources in subscription''])
   \<and> run_audit az_broken_listing (Some ''rg1'') =
     (Inl (OtherException ''bad page''),
      [''Authentication successful.'', ''Scanning resources in resource group: rg1''])
   \<and> authenticate az_no_login =
     (False, [''Unexpected error during authentication: no credentials''])"
  by code_simp



end
